theory Spec2Isabelle
  imports Main "HOL-Library.AList"
begin

section \<open>Element trees\<close>

text \<open>
  The module builds its requests with \<^verbatim>\<open>lxml.builder.E\<close>. An element has a tag, an
  optional text, its children in order, and an optional tail (the text that follows
  its closing tag inside its parent). This section is the value view of such a tree;
  the store view, in which one element object has one parent, follows further down.
\<close>

datatype elem =
  Elem (tag: string) (etext: "string option") (children: "elem list") (tail: "string option")

text \<open>
  What a caller hands to a builder as a positional or keyword value: a string or an
  element. Other Python values are not part of the model.
\<close>

datatype val = Str string | El elem

text \<open>
  \<^verbatim>\<open>**kwargs\<close>: a dictionary, kept as an association list in iteration order. Its
  keys are distinct; the theorems that need this say so.
\<close>

type_synonym kwargs = "(string \<times> val) list"

datatype pyval = PyStr string | PyInt int | PyFloat string | PyBool bool

datatype error =
    MissingRequiredField string
  | KeyError string
  | AssertionError int int
  | AttributeError string
  | TypeError pyval
  | TransportError string
  | XMLSyntaxError string
  | CarrierError string elem

definition or_empty :: "string option \<Rightarrow> string" where
  "or_empty t = (case t of None \<Rightarrow> [] | Some s \<Rightarrow> s)"

definition set_tail :: "elem \<Rightarrow> string \<Rightarrow> elem" where
  "set_tail c s = Elem (tag c) (etext c) (children c) (Some (or_empty (tail c) @ s))"

text \<open>
  \<^verbatim>\<open>add_text\<close> of the element maker: a string is appended to the tail of the last
  child, or to the text of the element when it has no child yet.
\<close>

fun add_text :: "elem \<Rightarrow> string \<Rightarrow> elem" where
  "add_text (Elem t x [] ta) s = Elem t (Some (or_empty x @ s)) [] ta"
| "add_text (Elem t x cs ta) s = Elem t x (butlast cs @ [set_tail (last cs) s]) ta"

fun add_item :: "elem \<Rightarrow> val \<Rightarrow> elem" where
  "add_item e (Str s) = add_text e s"
| "add_item (Elem t x cs ta) (El c) = Elem t x (cs @ [c]) ta"

text \<open>\<^verbatim>\<open>E(tag, *items)\<close> and \<^verbatim>\<open>E.tag(*items)\<close>.\<close>

definition E :: "string \<Rightarrow> val list \<Rightarrow> elem" where
  "E t items = foldl add_item (Elem t None [] None) items"

section \<open>The helper of the base client\<close>

text \<open>
  Modelled from the spec: \<^verbatim>\<open>BaseAPIClient.make_elements(required_args, args, kwargs)\<close>
  lives in \<^verbatim>\<open>base.py\<close>, which is not among the sources. The spec says of a builder
  that it "accepts positional/keyword values, validates required names are present
  (failing with a descriptive error naming the missing field), and emits a tree node
  with children ordered as populated". The callers in \<^verbatim>\<open>shipping_package.py\<close> fix
  two more points: a required name is present when a positional element carries it as
  its tag (\<^verbatim>\<open>shipment_confirm_request_type\<close> calls \<^verbatim>\<open>label_specification_type\<close>
  with two positional elements and no keyword), and a keyword value is wrapped in an
  element named by its key (the comment there: "the tags would be nested").
\<close>

definition supplied :: "elem list \<Rightarrow> kwargs \<Rightarrow> string \<Rightarrow> bool" where
  "supplied args kwargs r = (r \<in> set (map tag args) \<or> r \<in> set (map fst kwargs))"

definition make_elements :: "string list \<Rightarrow> elem list \<Rightarrow> kwargs \<Rightarrow> error + elem list" where
  "make_elements required_args args kwargs =
     (case find (\<lambda>r. \<not> supplied args kwargs r) required_args of
        Some r \<Rightarrow> Inl (MissingRequiredField r)
      | None \<Rightarrow> Inr (args @ map (\<lambda>(k, v). E k [v]) kwargs))"

section \<open>ShipmentMixin: the builders\<close>



text \<open>
  \<^verbatim>\<open>dict(((e.tag, e.text) for e in elements))\<close>: a later pair replaces an earlier one
  with the same tag.
\<close>

definition tag_text_dict :: "elem list \<Rightarrow> string \<Rightarrow> string option option" where
  "tag_text_dict elements = map_of (rev (map (\<lambda>e. (tag e, etext e)) elements))"

definition state_warning :: string where
  "state_warning = ''StateProvinceCode are required only for CA and US''"

text \<open>
  \<^verbatim>\<open>address_type\<close> returns the element together with the warnings it sent to the
  logger.
\<close>

definition address_type :: "elem list \<Rightarrow> kwargs \<Rightarrow> error + (elem \<times> string list)" where
  "address_type args kwargs =
     (case make_elements [''AddressLine1'', ''City''] args kwargs of
        Inl e \<Rightarrow> Inl e
      | Inr elements \<Rightarrow>
          (let data = tag_text_dict elements;
               warnings =
                 (if data ''CountryCode'' \<noteq> None \<and> data ''StateProviceCode'' \<noteq> None
                     \<and> data ''CountryCode'' \<notin> {Some (Some ''US''), Some (Some ''CA'')}
                  then [state_warning] else [])
           in Inr (E ''Address'' (map El elements), warnings)))"

definition ship_phone_type :: "elem list \<Rightarrow> kwargs \<Rightarrow> error + elem" where
  "ship_phone_type args kwargs =
     (case make_elements [''Number''] args kwargs of
        Inl e \<Rightarrow> Inl e
      | Inr elements \<Rightarrow> Inr (E ''Phone'' (map El elements)))"


definition package_type :: "elem list \<Rightarrow> kwargs \<Rightarrow> error + elem" where
  "package_type args kwargs =
     (case make_elements [''PackagingType'', ''PackageWeight''] args kwargs of
        Inl e \<Rightarrow> Inl e
      | Inr elements \<Rightarrow> Inr (E ''Package'' (map El elements)))"

definition service_type :: "elem list \<Rightarrow> kwargs \<Rightarrow> error + elem" where
  "service_type args kwargs =
     (case make_elements [''Code''] args kwargs of
        Inl e \<Rightarrow> Inl e
      | Inr elements \<Rightarrow> Inr (E ''Service'' (map El elements)))"

definition packaging_type :: "elem list \<Rightarrow> kwargs \<Rightarrow> error + elem" where
  "packaging_type args kwargs =
     (case make_elements [''Code''] args kwargs of
        Inl e \<Rightarrow> Inl e
      | Inr elements \<Rightarrow> Inr (E ''PackagingType'' (map El elements)))"


text \<open>\<^verbatim>\<open>kwargs[k]\<close>: a missing key raises \<^verbatim>\<open>KeyError\<close>.\<close>

definition getitem :: "kwargs \<Rightarrow> string \<Rightarrow> error + val" where
  "getitem kwargs k = (case map_of kwargs k of None \<Rightarrow> Inl (KeyError k) | Some v \<Rightarrow> Inr v)"

definition dimensions_type :: "elem list \<Rightarrow> kwargs \<Rightarrow> error + elem" where
  "dimensions_type args kwargs =
     (case getitem kwargs ''Code'' of
        Inl e \<Rightarrow> Inl e
      | Inr code \<Rightarrow>
     (let uom_dict =
            [(''Code'', code),
             (''Description'',
                (case map_of kwargs ''Description'' of None \<Rightarrow> Str [] | Some d \<Rightarrow> d))]
      in case make_elements [''Code''] [] uom_dict of
        Inl e \<Rightarrow> Inl e
      | Inr elements \<Rightarrow>
     (case getitem kwargs ''Length'' of
        Inl e \<Rightarrow> Inl e
      | Inr len \<Rightarrow>
     (case getitem kwargs ''Width'' of
        Inl e \<Rightarrow> Inl e
      | Inr width \<Rightarrow>
     (case getitem kwargs ''Height'' of
        Inl e \<Rightarrow> Inl e
      | Inr height \<Rightarrow>
          Inr (E ''Dimensions''
                 [El (E ''UnitOfMeasurement'' (map El elements)),
                  El (E ''Length'' [len]),
                  El (E ''Width'' [width]),
                  El (E ''Height'' [height])]))))))"

definition package_service_options_type :: "elem list \<Rightarrow> kwargs \<Rightarrow> error + elem" where
  "package_service_options_type args kwargs =
     (case make_elements [''InsuredValue''] args kwargs of
        Inl e \<Rightarrow> Inl e
      | Inr elements \<Rightarrow> Inr (E ''PackageServiceOptions'' (map El elements)))"

definition insured_value_type :: "elem list \<Rightarrow> kwargs \<Rightarrow> error + elem" where
  "insured_value_type args kwargs =
     (case make_elements [''MonetaryValue''] args kwargs of
        Inl e \<Rightarrow> Inl e
      | Inr elements \<Rightarrow> Inr (E ''InsuredValue'' (map El elements)))"


definition payment_information_prepaid_type :: "elem list \<Rightarrow> kwargs \<Rightarrow> error + elem" where
  "payment_information_prepaid_type args kwargs =
     (case make_elements [''AccountNumber''] args kwargs of
        Inl e \<Rightarrow> Inl e
      | Inr elements \<Rightarrow> Inr (E ''Prepaid'' [El (E ''BillShipper'' (map El elements))]))"

definition rate_information_type :: "bool \<Rightarrow> bool \<Rightarrow> elem" where
  "rate_information_type negotiated rate_chart =
     E ''RateInformation''
       ((if negotiated then [El (E ''NegotiatedRatesIndicator'' [])] else [])
        @ (if rate_chart then [El (E ''RateChartIndicator'' [])] else []))"

section \<open>ShipmentConfirm\<close>

text \<open>The class-level elements of \<^verbatim>\<open>ShipmentConfirm\<close>, as values.\<close>

definition ShipmentConfirm_RequestAction :: elem where
  "ShipmentConfirm_RequestAction = E ''RequestAction'' [Str ''ShipConfirm'']"

definition ShipmentConfirm_RequestOption :: elem where
  "ShipmentConfirm_RequestOption = E ''RequestOption'' [Str ''nonvalidate'']"

definition ShipmentConfirm_TransactionReference :: elem where
  "ShipmentConfirm_TransactionReference =
     E ''TransactionReference'' [El (E ''CustomerContext'' [Str ''unspecified''])]"

definition payment_information_type :: "val \<Rightarrow> elem" where
  "payment_information_type method = E ''PaymentInformation'' [method]"

text \<open>
  \<^verbatim>\<open>values = {'Code': 'GIF'}; values.update(kwargs)\<close>: a key that is already there
  keeps its place and takes the new value, a new key is added.
\<close>

definition dict_update :: "kwargs \<Rightarrow> kwargs \<Rightarrow> kwargs" where
  "dict_update values kwargs = foldl (\<lambda>d (k, v). AList.update k v d) values kwargs"

text \<open>
  The assertion on the number of positional arguments, which is checked only when
  there is one: \<^verbatim>\<open>len(args) == 2 - len(kwargs.keys())\<close>.
\<close>

definition check_pos_args :: "elem list \<Rightarrow> kwargs \<Rightarrow> error + unit" where
  "check_pos_args args kwargs =
     (if args \<noteq> [] \<and> int (length args) \<noteq> 2 - int (length kwargs)
      then Inl (AssertionError (2 - int (length kwargs)) (int (length args)))
      else Inr ())"

definition label_print_method_type :: "elem list \<Rightarrow> kwargs \<Rightarrow> error + elem" where
  "label_print_method_type args kwargs =
     (let values = dict_update [(''Code'', Str ''GIF'')] kwargs
      in case check_pos_args args kwargs of
        Inl e \<Rightarrow> Inl e
      | Inr _ \<Rightarrow>
     (case make_elements [''Code''] args values of
        Inl e \<Rightarrow> Inl e
      | Inr elements \<Rightarrow> Inr (E ''LabelPrintMethod'' (map El elements))))"

definition label_image_format_type :: "elem list \<Rightarrow> kwargs \<Rightarrow> error + elem" where
  "label_image_format_type args kwargs =
     (let values = dict_update [(''Code'', Str ''GIF'')] kwargs
      in case check_pos_args args kwargs of
        Inl e \<Rightarrow> Inl e
      | Inr _ \<Rightarrow>
     (case make_elements [''Code''] args values of
        Inl e \<Rightarrow> Inl e
      | Inr elements \<Rightarrow> Inr (E ''LabelImageFormat'' (map El elements))))"

definition label_specification_type :: "elem list \<Rightarrow> kwargs \<Rightarrow> error + elem" where
  "label_specification_type args kwargs =
     (case make_elements [''LabelPrintMethod''] args kwargs of
        Inl e \<Rightarrow> Inl e
      | Inr elements \<Rightarrow> Inr (E ''LabelSpecification'' (map El elements)))"

text \<open>
  The label specification of a confirm request and the keywords left for the
  shipment: the default when the keyword is absent, otherwise the value popped from
  the keywords.
\<close>

definition guess_label_specification :: "kwargs \<Rightarrow> error + (val \<times> kwargs)" where
  "guess_label_specification kwargs =
     (case map_of kwargs ''LabelSpecification'' of
        None \<Rightarrow>
          (case label_print_method_type [] [] of
             Inl e \<Rightarrow> Inl e
           | Inr lpm \<Rightarrow>
          (case label_image_format_type [] [] of
             Inl e \<Rightarrow> Inl e
           | Inr lif \<Rightarrow>
          (case label_specification_type [lpm, lif] [] of
             Inl e \<Rightarrow> Inl e
           | Inr ls \<Rightarrow> Inr (El ls, kwargs))))
      | Some v \<Rightarrow> Inr (v, AList.delete ''LabelSpecification'' kwargs))"

definition shipment_confirm_request_type :: "elem list \<Rightarrow> kwargs \<Rightarrow> error + elem" where
  "shipment_confirm_request_type args kwargs =
     (let request =
            E ''Request''
              [El ShipmentConfirm_RequestAction,
               El ShipmentConfirm_RequestOption,
               El ShipmentConfirm_TransactionReference]
      in case guess_label_specification kwargs of
        Inl e \<Rightarrow> Inl e
      | Inr (label_specification, kwargs') \<Rightarrow>
     (case make_elements
             [''Shipper'', ''ShipTo'', ''ShipFrom'', ''Service'', ''PaymentInformation'']
             args kwargs' of
        Inl e \<Rightarrow> Inl e
      | Inr elements \<Rightarrow>
          (let shipment_element = E ''Shipment'' (map El elements)
           in Inr (E ''ShipmentConfirmRequest''
                     [El request, El shipment_element, label_specification]))))"

section \<open>Typed values of a parsed response\<close>

text \<open>
  A response is parsed by \<^verbatim>\<open>lxml.objectify\<close>. There the value of a leaf
  (\<^verbatim>\<open>.pyval\<close>) is typed from its text: the registered type checks are tried in
  order, the first that accepts the text gives the value, and a text that none
  accepts is a string. The registry is a parameter of the functions below;
  \<open>objectify_checks\<close> models the checks registered by default (integer, float,
  boolean), each as Python's conversion reads a text.
\<close>

definition is_space :: "char \<Rightarrow> bool" where
  "is_space c = (c \<in> set [CHR '' '', CHR 0x09, CHR 0x0A, CHR 0x0B, CHR 0x0C, CHR 0x0D])"

definition strip :: "string \<Rightarrow> string" where
  "strip s = rev (dropWhile is_space (rev (dropWhile is_space s)))"

definition is_digit :: "char \<Rightarrow> bool" where
  "is_digit c = (c \<in> set ''0123456789'')"

definition digits_value :: "string \<Rightarrow> nat" where
  "digits_value ds = foldl (\<lambda>n c. 10 * n + (of_char c - 48)) 0 ds"

fun unsigned :: "string \<Rightarrow> bool \<times> string" where
  "unsigned (c # cs) =
     (if c = CHR ''-'' then (True, cs) else if c = CHR ''+'' then (False, cs)
      else (False, c # cs))"
| "unsigned [] = (False, [])"

definition is_digits :: "string \<Rightarrow> bool" where
  "is_digits ds = (ds \<noteq> [] \<and> list_all is_digit ds)"

definition int_check :: "string \<Rightarrow> pyval option" where
  "int_check s =
     (case unsigned (strip s) of
        (negative, ds) \<Rightarrow>
          if is_digits ds
          then Some (PyInt (if negative then - int (digits_value ds) else int (digits_value ds)))
          else None)"

definition lower :: "string \<Rightarrow> string" where
  "lower s =
     map (\<lambda>c. if (65::nat) \<le> of_char c \<and> of_char c \<le> (90::nat)
              then char_of (of_char c + (32::nat)) else c) s"

definition is_exponent :: "string \<Rightarrow> bool" where
  "is_exponent ex = (ex = [] \<or> (hd ex \<in> set ''eE'' \<and> is_digits (snd (unsigned (tl ex)))))"

definition is_mantissa :: "string \<Rightarrow> bool" where
  "is_mantissa m =
     (let ip = takeWhile is_digit m; rest = dropWhile is_digit m
      in if rest = [] then ip \<noteq> []
         else hd rest = CHR ''.'' \<and> list_all is_digit (tl rest) \<and> (ip \<noteq> [] \<or> tl rest \<noteq> []))"

definition float_check :: "string \<Rightarrow> pyval option" where
  "float_check s =
     (let body = snd (unsigned (strip s));
          m = takeWhile (\<lambda>c. c \<notin> set ''eE'') body;
          ex = dropWhile (\<lambda>c. c \<notin> set ''eE'') body
      in if lower body \<in> set [''inf'', ''infinity'', ''nan'']
            \<or> (is_mantissa m \<and> is_exponent ex)
         then Some (PyFloat (strip s)) else None)"

definition bool_check :: "string \<Rightarrow> pyval option" where
  "bool_check s =
     (if s = ''true'' then Some (PyBool True)
      else if s = ''false'' then Some (PyBool False) else None)"

definition objectify_checks :: "(string \<Rightarrow> pyval option) list" where
  "objectify_checks = [int_check, float_check, bool_check]"

text \<open>
  The value of a leaf with the given text: an empty leaf is the empty string.
\<close>

definition pyval_of :: "(string \<Rightarrow> pyval option) list \<Rightarrow> string option \<Rightarrow> pyval" where
  "pyval_of checks t =
     (case t of
        None \<Rightarrow> PyStr []
      | Some s \<Rightarrow>
          if s = [] then PyStr []
          else (case List.map_filter (\<lambda>check. check s) checks of
                  [] \<Rightarrow> PyStr s
                | v # _ \<Rightarrow> v))"

text \<open>
  \<^verbatim>\<open>response.ShipmentDigest.pyval\<close>: the first child of that name; an element with
  children of its own is a tree node and has no \<^verbatim>\<open>pyval\<close>.
\<close>

definition extract_digest :: "(string \<Rightarrow> pyval option) list \<Rightarrow> elem \<Rightarrow> error + pyval" where
  "extract_digest checks response =
     (case find (\<lambda>c. tag c = ''ShipmentDigest'') (children response) of
        None \<Rightarrow> Inl (AttributeError ''ShipmentDigest'')
      | Some d \<Rightarrow>
          if children d \<noteq> [] then Inl (AttributeError ''pyval'')
          else Inr (pyval_of checks (etext d)))"

section \<open>ShipmentAccept and ShipmentVoid\<close>

definition ShipmentAccept_RequestAction :: elem where
  "ShipmentAccept_RequestAction = E ''RequestAction'' [Str ''ShipAccept'']"

definition ShipmentAccept_RequestOption :: elem where
  "ShipmentAccept_RequestOption = E ''RequestOption'' [Str ''nonvalidate'']"

definition ShipmentAccept_TransactionReference :: elem where
  "ShipmentAccept_TransactionReference =
     E ''TransactionReference'' [El (E ''CustomerContext'' [Str ''unspecified''])]"

text \<open>
  The element maker takes strings and elements; a value of another Python type is
  refused with a \<^verbatim>\<open>TypeError\<close>.
\<close>

definition E_value :: "string \<Rightarrow> pyval \<Rightarrow> error + elem" where
  "E_value t v = (case v of PyStr s \<Rightarrow> Inr (E t [Str s]) | _ \<Rightarrow> Inl (TypeError v))"

definition shipment_accept_request_type :: "pyval \<Rightarrow> error + elem" where
  "shipment_accept_request_type digest =
     (let request =
            E ''Request''
              [El ShipmentAccept_RequestAction,
               El ShipmentAccept_RequestOption,
               El ShipmentAccept_TransactionReference]
      in case E_value ''ShipmentDigest'' digest of
        Inl e \<Rightarrow> Inl e
      | Inr digest_element \<Rightarrow>
          Inr (E ''ShipmentAcceptRequest'' [El request, El digest_element]))"

definition ShipmentVoid_RequestAction :: elem where
  "ShipmentVoid_RequestAction = E ''RequestAction'' [Str ''Void'']"

definition ShipmentVoid_RequestOption :: elem where
  "ShipmentVoid_RequestOption = E ''RequestOption'' [Str []]"

definition ShipmentVoid_TransactionReference :: elem where
  "ShipmentVoid_TransactionReference =
     E ''TransactionReference'' [El (E ''CustomerContext'' [Str ''unspecified''])]"

definition void_shipment_request_type :: "string \<Rightarrow> string list \<Rightarrow> elem" where
  "void_shipment_request_type shipment_id tracking_ids =
     (let request =
            E ''Request''
              [El ShipmentVoid_RequestAction,
               El ShipmentVoid_RequestOption,
               El ShipmentVoid_TransactionReference];
          expanded_void_shipment =
            E ''ShipmentIdentificationNumber'' [Str shipment_id]
            # map (\<lambda>packet. E ''TrackingNumber'' [Str packet]) tracking_ids
      in E ''VoidShipmentRequest''
           [El request, El (E ''ExpandedVoidShipment'' (map El expanded_void_shipment))])"

section \<open>The request operation\<close>

text \<open>
  The collaborators a client takes from \<^verbatim>\<open>BaseAPIClient\<close> (\<^verbatim>\<open>base.py\<close>, not among
  the sources) are fields of the client: the two base endpoints, the flags set at
  construction, the access credentials document, the transport, and the marker by
  which a node of a response is a carrier error node. The serializer
  \<^verbatim>\<open>etree.tostring(_, pretty_print=True)\<close> and the parser \<^verbatim>\<open>objectify.fromstring\<close>
  of lxml are parameters as well.
\<close>

record api_client =
  base_url :: "string \<Rightarrow> string"
  sandbox :: bool
  return_xml :: bool
  access_request :: elem
  send_request :: "string \<Rightarrow> string \<Rightarrow> error + string"
  error_node :: "elem \<Rightarrow> bool"

record lxml_api =
  tostring :: "elem \<Rightarrow> string"
  fromstring :: "string \<Rightarrow> error + elem"

text \<open>What a request does besides returning: its log lines and its transport calls.\<close>

datatype event = Debug string | Sent string string

datatype reply = Parsed elem | WithXml string elem

fun join :: "string \<Rightarrow> string list \<Rightarrow> string" where
  "join sep [] = []"
| "join sep [x] = x"
| "join sep (x # xs) = x @ sep @ join sep xs"

definition xml_declaration :: string where
  \<open>xml_declaration = ''<?xml version="1.0" encoding="UTF-8" ?>''\<close>

fun contains_node :: "(elem \<Rightarrow> bool) \<Rightarrow> elem \<Rightarrow> bool" where
  "contains_node p (Elem t x cs ta) = (p (Elem t x cs ta) \<or> list_ex (contains_node p) cs)"

text \<open>
  Modelled from the spec: \<^verbatim>\<open>BaseAPIClient.look_for_error(response, request)\<close> lives
  in \<^verbatim>\<open>base.py\<close>, which is not among the sources. The spec: it "scans the parsed
  response for an embedded error/fault node and raises a typed error if found", the
  error "carrying the original request and response for diagnosis".
\<close>

definition look_for_error :: "(elem \<Rightarrow> bool) \<Rightarrow> elem \<Rightarrow> string \<Rightarrow> error + unit" where
  "look_for_error marker response request =
     (if contains_node marker response then Inl (CarrierError request response) else Inr ())"

definition endpoint :: "api_client \<Rightarrow> string" where
  "endpoint c = base_url c (if sandbox c then ''sandbox'' else ''production'')"

definition ShipmentConfirm_url :: "api_client \<Rightarrow> string" where
  "ShipmentConfirm_url c = join ''/'' [endpoint c, ''ShipConfirm'']"

definition ShipmentAccept_url :: "api_client \<Rightarrow> string" where
  "ShipmentAccept_url c = join ''/'' [endpoint c, ''ShipAccept'']"

definition ShipmentVoid_url :: "api_client \<Rightarrow> string" where
  "ShipmentVoid_url c = join ''/'' [endpoint c, ''Void'']"

definition ShipmentConfirm_request ::
  "lxml_api \<Rightarrow> api_client \<Rightarrow> elem \<Rightarrow> event list \<times> (error + reply)" where
  "ShipmentConfirm_request lx c shipment_confirm_request =
     (let full_request =
            join ''\<newline>''
              [xml_declaration, tostring lx (access_request c),
               xml_declaration, tostring lx shipment_confirm_request];
          log1 = [Debug (''Request XML: '' @ full_request),
                  Sent (ShipmentConfirm_url c) full_request]
      in case send_request c (ShipmentConfirm_url c) full_request of
        Inl e \<Rightarrow> (log1, Inl e)
      | Inr result \<Rightarrow>
     (let log2 = log1 @ [Debug (''Response Received: '' @ result)]
      in case fromstring lx result of
        Inl e \<Rightarrow> (log2, Inl e)
      | Inr response \<Rightarrow>
     (case look_for_error (error_node c) response full_request of
        Inl e \<Rightarrow> (log2, Inl e)
      | Inr _ \<Rightarrow>
          (log2, Inr (if return_xml c then WithXml full_request response
                      else Parsed response)))))"

definition ShipmentAccept_request ::
  "lxml_api \<Rightarrow> api_client \<Rightarrow> elem \<Rightarrow> event list \<times> (error + reply)" where
  "ShipmentAccept_request lx c shipment_accept_request =
     (let full_request =
            join ''\<newline>''
              [xml_declaration, tostring lx (access_request c),
               xml_declaration, tostring lx shipment_accept_request];
          log1 = [Debug (''Request XML: '' @ full_request),
                  Sent (ShipmentAccept_url c) full_request]
      in case send_request c (ShipmentAccept_url c) full_request of
        Inl e \<Rightarrow> (log1, Inl e)
      | Inr result \<Rightarrow>
     (let log2 = log1 @ [Debug (''Response Received: '' @ result)]
      in case fromstring lx result of
        Inl e \<Rightarrow> (log2, Inl e)
      | Inr response \<Rightarrow>
     (case look_for_error (error_node c) response full_request of
        Inl e \<Rightarrow> (log2, Inl e)
      | Inr _ \<Rightarrow>
          (log2, Inr (if return_xml c then WithXml full_request response
                      else Parsed response)))))"

definition ShipmentVoid_request ::
  "lxml_api \<Rightarrow> api_client \<Rightarrow> elem \<Rightarrow> event list \<times> (error + reply)" where
  "ShipmentVoid_request lx c shipment_void_request =
     (let full_request =
            join ''\<newline>''
              [xml_declaration, tostring lx (access_request c),
               xml_declaration, tostring lx shipment_void_request];
          log1 = [Debug (''Request XML: '' @ full_request),
                  Sent (ShipmentVoid_url c) full_request]
      in case send_request c (ShipmentVoid_url c) full_request of
        Inl e \<Rightarrow> (log1, Inl e)
      | Inr result \<Rightarrow>
     (let log2 = log1 @ [Debug (''Response Received: '' @ result)]
      in case fromstring lx result of
        Inl e \<Rightarrow> (log2, Inl e)
      | Inr response \<Rightarrow>
     (case look_for_error (error_node c) response full_request of
        Inl e \<Rightarrow> (log2, Inl e)
      | Inr _ \<Rightarrow>
          (log2, Inr (if return_xml c then WithXml full_request response
                      else Parsed response)))))"


section \<open>Elements as objects: the store view\<close>

text \<open>
  An lxml element is an object with at most one parent: appending an element that
  already has a parent unlinks it there first, so the element moves. The class-level
  elements \<^verbatim>\<open>RequestAction\<close>, \<^verbatim>\<open>RequestOption\<close> and \<^verbatim>\<open>TransactionReference\<close> are such
  objects, shared by every call of a request builder. The store is the list of all
  element objects; an element is named by its index.
\<close>

record node =
  ntag :: string
  ntext :: "string option"
  ntail :: "string option"
  nkids :: "nat list"
  nparent :: "nat option"

type_synonym store = "node list"

datatype item = IStr string | IEl nat

definition new_element :: "string \<Rightarrow> store \<Rightarrow> nat \<times> store" where
  "new_element t st =
     (length st,
      st @ [\<lparr>ntag = t, ntext = None, ntail = None, nkids = [], nparent = None\<rparr>])"

definition unlink :: "nat \<Rightarrow> store \<Rightarrow> store" where
  "unlink c st =
     (case nparent (st ! c) of
        None \<Rightarrow> st
      | Some p \<Rightarrow>
          (let st1 = st[p := (st ! p)\<lparr>nkids := removeAll c (nkids (st ! p))\<rparr>]
           in st1[c := (st1 ! c)\<lparr>nparent := None\<rparr>]))"

definition append_child :: "nat \<Rightarrow> nat \<Rightarrow> store \<Rightarrow> store" where
  "append_child p c st =
     (let st1 = unlink c st;
          st2 = st1[p := (st1 ! p)\<lparr>nkids := nkids (st1 ! p) @ [c]\<rparr>]
      in st2[c := (st2 ! c)\<lparr>nparent := Some p\<rparr>])"

definition add_text_st :: "nat \<Rightarrow> string \<Rightarrow> store \<Rightarrow> store" where
  "add_text_st p s st =
     (case nkids (st ! p) of
        [] \<Rightarrow> st[p := (st ! p)\<lparr>ntext := Some (or_empty (ntext (st ! p)) @ s)\<rparr>]
      | k # ks \<Rightarrow>
          (let l = last (k # ks)
           in st[l := (st ! l)\<lparr>ntail := Some (or_empty (ntail (st ! l)) @ s)\<rparr>]))"

definition add_item_st :: "nat \<Rightarrow> store \<Rightarrow> item \<Rightarrow> store" where
  "add_item_st a st it = (case it of IStr s \<Rightarrow> add_text_st a s st | IEl c \<Rightarrow> append_child a c st)"

definition E_st :: "string \<Rightarrow> item list \<Rightarrow> store \<Rightarrow> nat \<times> store" where
  "E_st t items st =
     (case new_element t st of (a, st1) \<Rightarrow> (a, foldl (add_item_st a) st1 items))"

text \<open>
  The tree below an element of the store, read to the given depth; \<open>view\<close> reads
  deep enough for every tree the store can hold.
\<close>

fun tree_of :: "nat \<Rightarrow> store \<Rightarrow> nat \<Rightarrow> elem" where
  "tree_of 0 st a = Elem (ntag (st ! a)) (ntext (st ! a)) [] (ntail (st ! a))"
| "tree_of (Suc n) st a =
     Elem (ntag (st ! a)) (ntext (st ! a)) (map (tree_of n st) (nkids (st ! a)))
       (ntail (st ! a))"

definition view :: "store \<Rightarrow> nat \<Rightarrow> elem" where
  "view st a = tree_of (length st) st a"

text \<open>
  The class body of \<^verbatim>\<open>ShipmentAccept\<close>, run once on the empty store: the three
  class attributes and the store that holds them.
\<close>

record templates =
  RequestAction :: nat
  RequestOption :: nat
  TransactionReference :: nat

definition ShipmentAccept_class :: "templates \<times> store" where
  "ShipmentAccept_class =
     (case E_st ''RequestAction'' [IStr ''ShipAccept''] [] of (ra, s1) \<Rightarrow>
      case E_st ''RequestOption'' [IStr ''nonvalidate''] s1 of (ro, s2) \<Rightarrow>
      case E_st ''CustomerContext'' [IStr ''unspecified''] s2 of (cc, s3) \<Rightarrow>
      case E_st ''TransactionReference'' [IEl cc] s3 of (tr, s4) \<Rightarrow>
        (\<lparr>RequestAction = ra, RequestOption = ro, TransactionReference = tr\<rparr>, s4))"

definition shipment_accept_request_type_st ::
  "templates \<Rightarrow> string \<Rightarrow> store \<Rightarrow> nat \<times> store" where
  "shipment_accept_request_type_st cls digest st =
     (case E_st ''Request''
             [IEl (RequestAction cls), IEl (RequestOption cls),
              IEl (TransactionReference cls)] st of (request, s1) \<Rightarrow>
      case E_st ''ShipmentDigest'' [IStr digest] s1 of (digest_element, s2) \<Rightarrow>
        E_st ''ShipmentAcceptRequest'' [IEl request, IEl digest_element] s2)"

section \<open>The builders, listed\<close>

text \<open>
  The builders that hand a non-empty list of required names to \<^verbatim>\<open>make_elements\<close>
  together with the caller's own keywords, each with its name and that list.
  \<^verbatim>\<open>label_print_method_type\<close> and \<^verbatim>\<open>label_image_format_type\<close> are not among them (they
  fill in \<^verbatim>\<open>Code\<close> before the check), nor is \<^verbatim>\<open>dimensions_type\<close> (it reads its
  keywords by key before the check).
\<close>

definition required_field_builders ::
  "(string \<times> string list \<times> (elem list \<Rightarrow> kwargs \<Rightarrow> error + elem)) list" where
  "required_field_builders =
     [(''address_type'', [''AddressLine1'', ''City''],
         (\<lambda>args kwargs. map_sum id fst (address_type args kwargs))),
      (''ship_phone_type'', [''Number''], ship_phone_type),
      (''package_type'', [''PackagingType'', ''PackageWeight''], package_type),
      (''service_type'', [''Code''], service_type),
      (''packaging_type'', [''Code''], packaging_type),
      (''package_service_options_type'', [''InsuredValue''], package_service_options_type),
      (''insured_value_type'', [''MonetaryValue''], insured_value_type),
      (''payment_information_prepaid_type'', [''AccountNumber''],
         payment_information_prepaid_type),
      (''label_specification_type'', [''LabelPrintMethod''], label_specification_type),
      (''shipment_confirm_request_type'',
         [''Shipper'', ''ShipTo'', ''ShipFrom'', ''Service'', ''PaymentInformation''],
         shipment_confirm_request_type)]"


section \<open>Basic facts about the element maker\<close>

lemma E_elements: "E t (map El es) = Elem t None es None"
proof -
  have "foldl add_item (Elem t x cs ta) (map El es) = Elem t x (cs @ es) ta" for x cs ta
    by (induction es arbitrary: cs) simp_all
  then show ?thesis by (simp add: E_def)
qed

lemma E_text: "E t [Str s] = Elem t (Some s) [] None"
  by (simp add: E_def or_empty_def)


lemma E_nil: "E t [] = Elem t None [] None"
  by (simp add: E_def)

lemma tag_E: "tag (E t items) = t"
proof -
  have "tag (foldl add_item e items) = tag e" for e
  proof (induction items arbitrary: e)
    case Nil
    then show ?case by simp
  next
    case (Cons i items)
    have "tag (add_item e i) = tag e"
      by (cases e; cases i; cases "children e") simp_all
    with Cons show ?case by simp
  qed
  then show ?thesis by (simp add: E_def)
qed

section \<open>The payload of a request\<close>




section \<open>The helper and the address warning\<close>


lemma make_elements_ok:
  "list_all (supplied args kwargs) required \<Longrightarrow>
     make_elements required args kwargs = Inr (args @ map (\<lambda>(k, v). E k [v]) kwargs)"
  by (simp add: make_elements_def find_None_iff list_all_iff split: option.splits)

lemma tag_wrap: "map tag (map (\<lambda>(k, v). E k [v]) kwargs) = map fst kwargs"
  by (simp add: comp_def split_def tag_E)

lemma tag_text_dict_dom:
  "tag_text_dict elements k \<noteq> None \<longleftrightarrow> k \<in> set (map tag elements)"
  by (simp add: tag_text_dict_def map_of_eq_None_iff image_image)

lemma tag_text_dict_keyword:
  assumes "distinct (map fst kwargs)" and "(k, Str s) \<in> set kwargs"
  shows "tag_text_dict (args @ map (\<lambda>(k, v). E k [v]) kwargs) k = Some (Some s)"
proof -
  let ?kv = "map (\<lambda>e. (tag e, etext e)) (map (\<lambda>(k, v). E k [v]) kwargs)"
  have fst_kv: "map fst ?kv = map fst kwargs"
    by (simp add: comp_def split_def tag_E)
  have "(k, Some s) \<in> set ?kv"
    using assms(2) by (force simp: E_text image_iff)
  moreover have "distinct (map fst ?kv)"
    unfolding fst_kv by (rule assms(1))
  then have "distinct (map fst (rev ?kv))"
    by (simp only: rev_map[symmetric] distinct_rev)
  ultimately have "map_of (rev ?kv) k = Some (Some s)"
    by (intro map_of_is_SomeI) simp_all
  then show ?thesis
    by (simp add: tag_text_dict_def map_add_def)
qed

text \<open>
  C5. An address is built from the required \<^verbatim>\<open>AddressLine1\<close> and \<^verbatim>\<open>City\<close> and a
  \<^verbatim>\<open>CountryCode\<close> keyword. Building succeeds and returns the \<^verbatim>\<open>Address\<close> element
  whatever the country code is. Exactly one warning is sent to the logger when a
  \<^verbatim>\<open>StateProviceCode\<close> is supplied and the country code is neither \<^verbatim>\<open>US\<close> nor
  \<^verbatim>\<open>CA\<close>; with \<^verbatim>\<open>US\<close> or \<^verbatim>\<open>CA\<close>, or without a state code, none is sent.
\<close>

theorem address_type_state_warning:
  assumes "supplied args kwargs ''AddressLine1''" and "supplied args kwargs ''City''"
    and "distinct (map fst kwargs)"
    and "(''CountryCode'', Str cc) \<in> set kwargs"
  shows "address_type args kwargs =
           Inr (Elem ''Address'' None (args @ map (\<lambda>(k, v). E k [v]) kwargs) None,
                if supplied args kwargs ''StateProviceCode'' \<and> cc \<noteq> ''US'' \<and> cc \<noteq> ''CA''
                then [state_warning] else [])"
proof -
  let ?els = "args @ map (\<lambda>(k, v). E k [v]) kwargs"
  have mk: "make_elements [''AddressLine1'', ''City''] args kwargs = Inr ?els"
    using assms(1,2) by (intro make_elements_ok) simp
  have cc: "tag_text_dict ?els ''CountryCode'' = Some (Some cc)"
    using assms(3,4) by (rule tag_text_dict_keyword)
  have st: "tag_text_dict ?els ''StateProviceCode'' \<noteq> None
              \<longleftrightarrow> supplied args kwargs ''StateProviceCode''"
    unfolding tag_text_dict_dom by (simp add: supplied_def split_def tag_E image_image)
  show ?thesis
    unfolding address_type_def mk
    by (simp only: sum.case Let_def cc st E_elements) simp
qed

theorem address_type_state_warning_witness:
  "address_type []
     [(''AddressLine1'', Str ''1 Main St''), (''City'', Str ''Berlin''),
      (''CountryCode'', Str ''DE''), (''StateProviceCode'', Str ''X'')] =
     Inr (Elem ''Address'' None
            [Elem ''AddressLine1'' (Some ''1 Main St'') [] None,
             Elem ''City'' (Some ''Berlin'') [] None,
             Elem ''CountryCode'' (Some ''DE'') [] None,
             Elem ''StateProviceCode'' (Some ''X'') [] None] None,
          [state_warning])
   \<and> address_type []
     [(''AddressLine1'', Str ''1 Main St''), (''City'', Str ''Boston''),
      (''CountryCode'', Str ''US''), (''StateProviceCode'', Str ''MA'')] =
     Inr (Elem ''Address'' None
            [Elem ''AddressLine1'' (Some ''1 Main St'') [] None,
             Elem ''City'' (Some ''Boston'') [] None,
             Elem ''CountryCode'' (Some ''US'') [] None,
             Elem ''StateProviceCode'' (Some ''MA'') [] None] None,
          [])"
  using
    address_type_state_warning [of "[]"
      "[(''AddressLine1'', Str ''1 Main St''), (''City'', Str ''Berlin''),
        (''CountryCode'', Str ''DE''), (''StateProviceCode'', Str ''X'')]" "''DE''"]
    address_type_state_warning [of "[]"
      "[(''AddressLine1'', Str ''1 Main St''), (''City'', Str ''Boston''),
        (''CountryCode'', Str ''US''), (''StateProviceCode'', Str ''MA'')]" "''US''"]
  by (simp add: supplied_def E_text)

section \<open>The default label specification of a confirm request\<close>

lemma guess_label_specification_default:
  "''LabelSpecification'' \<notin> set (map fst kwargs) \<Longrightarrow>
     guess_label_specification kwargs =
       Inr (El (Elem ''LabelSpecification'' None
                  [Elem ''LabelPrintMethod'' None [Elem ''Code'' (Some ''GIF'') [] None] None,
                   Elem ''LabelImageFormat'' None [Elem ''Code'' (Some ''GIF'') [] None] None]
                  None),
            kwargs)"
proof -
  assume "''LabelSpecification'' \<notin> set (map fst kwargs)"
  then have none: "map_of kwargs ''LabelSpecification'' = None"
    by (simp add: map_of_eq_None_iff)
  have lpm: "label_print_method_type [] [] =
               Inr (Elem ''LabelPrintMethod'' None [Elem ''Code'' (Some ''GIF'') [] None] None)"
    by (simp add: label_print_method_type_def dict_update_def check_pos_args_def
        make_elements_def supplied_def E_def or_empty_def)
  have lif: "label_image_format_type [] [] =
               Inr (Elem ''LabelImageFormat'' None [Elem ''Code'' (Some ''GIF'') [] None] None)"
    by (simp add: label_image_format_type_def dict_update_def check_pos_args_def
        make_elements_def supplied_def E_def or_empty_def)
  have ls: "label_specification_type
               [Elem ''LabelPrintMethod'' None [Elem ''Code'' (Some ''GIF'') [] None] None,
                Elem ''LabelImageFormat'' None [Elem ''Code'' (Some ''GIF'') [] None] None] [] =
             Inr (Elem ''LabelSpecification'' None
                  [Elem ''LabelPrintMethod'' None [Elem ''Code'' (Some ''GIF'') [] None] None,
                   Elem ''LabelImageFormat'' None [Elem ''Code'' (Some ''GIF'') [] None] None]
                  None)"
    by (simp add: label_specification_type_def make_elements_def supplied_def E_def)
  show ?thesis
    by (simp add: guess_label_specification_def none lpm lif ls)
qed

lemma E_three: "E t [El a, El b, El c] = Elem t None [a, b, c] None"
  by (simp add: E_def)

text \<open>
  C10. Take a call of \<^verbatim>\<open>shipment_confirm_request_type\<close> without a
  \<^verbatim>\<open>LabelSpecification\<close> keyword. When the five required elements are supplied the
  call returns a document. Every document it returns is a
  \<^verbatim>\<open>ShipmentConfirmRequest\<close> whose top-level children are \<^verbatim>\<open>Request\<close>,
  \<^verbatim>\<open>Shipment\<close>, \<^verbatim>\<open>LabelSpecification\<close> in that order, and the last of them is the
  default: a \<^verbatim>\<open>LabelPrintMethod\<close> and a \<^verbatim>\<open>LabelImageFormat\<close>, each with the one
  child \<^verbatim>\<open>Code\<close> of text \<^verbatim>\<open>GIF\<close>.
\<close>

theorem confirm_request_default_label:
  assumes "''LabelSpecification'' \<notin> set (map fst kwargs)"
  shows "(list_all (supplied args kwargs)
            [''Shipper'', ''ShipTo'', ''ShipFrom'', ''Service'', ''PaymentInformation'']
          \<longrightarrow> (\<exists>doc. shipment_confirm_request_type args kwargs = Inr doc))
       \<and> (\<forall>doc. shipment_confirm_request_type args kwargs = Inr doc \<longrightarrow>
            tag doc = ''ShipmentConfirmRequest''
          \<and> map tag (children doc) = [''Request'', ''Shipment'', ''LabelSpecification'']
          \<and> children doc ! 2 =
              Elem ''LabelSpecification'' None
                [Elem ''LabelPrintMethod'' None [Elem ''Code'' (Some ''GIF'') [] None] None,
                 Elem ''LabelImageFormat'' None [Elem ''Code'' (Some ''GIF'') [] None] None]
                None)"
proof (intro conjI allI impI)
  assume "list_all (supplied args kwargs)
            [''Shipper'', ''ShipTo'', ''ShipFrom'', ''Service'', ''PaymentInformation'']"
  then have "make_elements
               [''Shipper'', ''ShipTo'', ''ShipFrom'', ''Service'', ''PaymentInformation'']
               args kwargs = Inr (args @ map (\<lambda>(k, v). E k [v]) kwargs)"
    by (rule make_elements_ok)
  then show "\<exists>doc. shipment_confirm_request_type args kwargs = Inr doc"
    by (simp add: shipment_confirm_request_type_def
        guess_label_specification_default[OF assms])
next
  fix doc
  assume "shipment_confirm_request_type args kwargs = Inr doc"
  then obtain elements where
    doc: "doc = E ''ShipmentConfirmRequest''
             [El (E ''Request''
                    [El ShipmentConfirm_RequestAction, El ShipmentConfirm_RequestOption,
                     El ShipmentConfirm_TransactionReference]),
              El (E ''Shipment'' (map El elements)),
              El (Elem ''LabelSpecification'' None
                [Elem ''LabelPrintMethod'' None [Elem ''Code'' (Some ''GIF'') [] None] None,
                 Elem ''LabelImageFormat'' None [Elem ''Code'' (Some ''GIF'') [] None] None]
                None)]"
    by (auto simp: shipment_confirm_request_type_def
        guess_label_specification_default[OF assms] split: sum.splits)
  show "tag doc = ''ShipmentConfirmRequest''"
    by (simp add: doc tag_E)
  show "map tag (children doc) = [''Request'', ''Shipment'', ''LabelSpecification'']"
    by (simp add: doc E_three tag_E)
  show "children doc ! 2 =
              Elem ''LabelSpecification'' None
                [Elem ''LabelPrintMethod'' None [Elem ''Code'' (Some ''GIF'') [] None] None,
                 Elem ''LabelImageFormat'' None [Elem ''Code'' (Some ''GIF'') [] None] None]
                None"
    by (simp add: doc E_three)
qed

theorem confirm_request_default_label_witness:
  "\<exists>doc. shipment_confirm_request_type
            [Elem ''Shipper'' None [] None, Elem ''ShipTo'' None [] None,
             Elem ''ShipFrom'' None [] None, Elem ''Service'' None [] None,
             Elem ''PaymentInformation'' None [] None]
            [(''Description'', Str ''books'')] = Inr doc
     \<and> map tag (children doc) = [''Request'', ''Shipment'', ''LabelSpecification'']
     \<and> children doc ! 2 =
          Elem ''LabelSpecification'' None
            [Elem ''LabelPrintMethod'' None [Elem ''Code'' (Some ''GIF'') [] None] None,
             Elem ''LabelImageFormat'' None [Elem ''Code'' (Some ''GIF'') [] None] None]
            None"
proof -
  let ?args = "[Elem ''Shipper'' None [] None, Elem ''ShipTo'' None [] None,
             Elem ''ShipFrom'' None [] None, Elem ''Service'' None [] None,
             Elem ''PaymentInformation'' None [] None]"
  let ?kwargs = "[(''Description'', Str ''books'')]"
  have nols: "''LabelSpecification'' \<notin> set (map fst ?kwargs)"
    by simp
  have sup: "list_all (supplied ?args ?kwargs)
               [''Shipper'', ''ShipTo'', ''ShipFrom'', ''Service'', ''PaymentInformation'']"
    by (simp add: supplied_def)
  note inst = confirm_request_default_label [OF nols, of ?args]
  from inst sup obtain doc where "shipment_confirm_request_type ?args ?kwargs = Inr doc"
    by blast
  with inst show ?thesis
    by blast
qed

section \<open>Carrier errors\<close>

text \<open>
  C4. For each of the three clients: when the transport returns bytes that parse
  into a response tree containing a carrier error node, the request operation returns
  no value; it raises the carrier error, which carries the full request text that
  was sent (both documents) and the parsed response.
\<close>

theorem request_raises_carrier_error:
  assumes "fromstring lx result = Inr response"
    and "contains_node (error_node c) response"
    and "full_request =
           join ''\<newline>''
             [xml_declaration, tostring lx (access_request c),
              xml_declaration, tostring lx doc]"
  shows "(send_request c (ShipmentConfirm_url c) full_request = Inr result \<longrightarrow>
            snd (ShipmentConfirm_request lx c doc) = Inl (CarrierError full_request response))
       \<and> (send_request c (ShipmentAccept_url c) full_request = Inr result \<longrightarrow>
            snd (ShipmentAccept_request lx c doc) = Inl (CarrierError full_request response))
       \<and> (send_request c (ShipmentVoid_url c) full_request = Inr result \<longrightarrow>
            snd (ShipmentVoid_request lx c doc) = Inl (CarrierError full_request response))"
proof -
  have err: "look_for_error (error_node c) response full_request =
               Inl (CarrierError full_request response)"
    using assms(2) by (simp add: look_for_error_def)
  show ?thesis
    unfolding ShipmentConfirm_request_def ShipmentAccept_request_def
      ShipmentVoid_request_def Let_def assms(3)[symmetric]
    by (simp add: assms(1) err)
qed

theorem request_raises_carrier_error_witness:
  "snd (ShipmentConfirm_request
          \<lparr>tostring = tag,
           fromstring = (\<lambda>bytes. Inr (Elem bytes None [Elem ''Error'' None [] None] None))\<rparr>
          \<lparr>base_url = (\<lambda>k. k), sandbox = True, return_xml = False,
           access_request = Elem ''AccessRequest'' None [] None,
           send_request = (\<lambda>u body. Inr ''Response''),
           error_node = (\<lambda>e. tag e = ''Error'')\<rparr>
          (Elem ''ShipmentConfirmRequest'' None [] None)) =
     Inl (CarrierError
            (xml_declaration @ ''\<newline>AccessRequest\<newline>'' @ xml_declaration
               @ ''\<newline>ShipmentConfirmRequest'')
            (Elem ''Response'' None [Elem ''Error'' None [] None] None))"
proof -
  let ?lx = "\<lparr>tostring = tag,
           fromstring = (\<lambda>bytes. Inr (Elem bytes None [Elem ''Error'' None [] None] None))\<rparr>"
  let ?c = "\<lparr>base_url = (\<lambda>k. k), sandbox = True, return_xml = False,
           access_request = Elem ''AccessRequest'' None [] None,
           send_request = (\<lambda>u body. Inr ''Response''),
           error_node = (\<lambda>e. tag e = ''Error'')\<rparr>"
  let ?resp = "Elem ''Response'' None [Elem ''Error'' None [] None] None"
  have p: "fromstring ?lx ''Response'' = Inr ?resp"
    by simp
  have e: "contains_node (error_node ?c) ?resp"
    by simp
  have f: "xml_declaration @ ''\<newline>AccessRequest\<newline>'' @ xml_declaration
               @ ''\<newline>ShipmentConfirmRequest'' =
           join ''\<newline>''
             [xml_declaration, tostring ?lx (access_request ?c),
              xml_declaration, tostring ?lx (Elem ''ShipmentConfirmRequest'' None [] None)]"
    by simp
  show ?thesis
    using request_raises_carrier_error [OF p e f] by simp
qed

section \<open>The digest from confirm to accept\<close>

lemma pyval_of_string:
  "list_all (\<lambda>check. check s = None) checks \<Longrightarrow> pyval_of checks (Some s) = PyStr s"
proof -
  assume "list_all (\<lambda>check. check s = None) checks"
  then have "List.map_filter (\<lambda>check. check s) checks = []"
    by (induction checks) (simp_all add: List.map_filter_simps)
  then show ?thesis
    by (simp add: pyval_of_def)
qed

lemma accept_request_of_string:
  "shipment_accept_request_type (PyStr s) =
     Inr (Elem ''ShipmentAcceptRequest'' None
            [Elem ''Request'' None
               [Elem ''RequestAction'' (Some ''ShipAccept'') [] None,
                Elem ''RequestOption'' (Some ''nonvalidate'') [] None,
                Elem ''TransactionReference'' None
                  [Elem ''CustomerContext'' (Some ''unspecified'') [] None] None]
               None,
             Elem ''ShipmentDigest'' (Some s) [] None]
            None)"
  by (simp add: shipment_accept_request_type_def E_value_def E_def or_empty_def
      ShipmentAccept_RequestAction_def ShipmentAccept_RequestOption_def
      ShipmentAccept_TransactionReference_def)

text \<open>
  Where the digest does go through unchanged. Take a confirm response whose
  \<^verbatim>\<open>ShipmentDigest\<close> leaf holds the text \<open>s\<close>, and let \<open>s\<close> be a text that none of the
  registered type checks accepts (it does not read as an integer, a float or a
  boolean). Then \<^verbatim>\<open>extract_digest\<close> returns exactly the string \<open>s\<close>, and the accept
  request built from that value has the two children \<^verbatim>\<open>Request\<close> and
  \<^verbatim>\<open>ShipmentDigest\<close>, the latter a leaf whose text is \<open>s\<close>.
\<close>

lemma digest_passed_unchanged:
  assumes "find (\<lambda>c. tag c = ''ShipmentDigest'') (children response) = Some d"
    and "etext d = Some s" and "children d = []"
    and "list_all (\<lambda>check. check s = None) checks"
  shows "extract_digest checks response = Inr (PyStr s)
       \<and> (\<exists>request.
             (case extract_digest checks response of
                Inl e \<Rightarrow> Inl e
              | Inr digest \<Rightarrow> shipment_accept_request_type digest) =
               Inr (Elem ''ShipmentAcceptRequest'' None
                      [request, Elem ''ShipmentDigest'' (Some s) [] None] None)
           \<and> tag request = ''Request'')"
proof -
  have ex: "extract_digest checks response = Inr (PyStr s)"
    using assms by (simp add: extract_digest_def pyval_of_string)
  show ?thesis
    unfolding ex by (simp add: accept_request_of_string)
qed

lemma digest_passed_unchanged_abc123:
  "extract_digest objectify_checks
     (Elem ''ShipmentConfirmResponse'' None
        [Elem ''ShipmentDigest'' (Some ''abc123'') [] None] None) = Inr (PyStr ''abc123'')
   \<and> (\<exists>request.
         shipment_accept_request_type (PyStr ''abc123'') =
           Inr (Elem ''ShipmentAcceptRequest'' None
                  [request, Elem ''ShipmentDigest'' (Some ''abc123'') [] None] None)
       \<and> tag request = ''Request'')"
proof -
  let ?d = "Elem ''ShipmentDigest'' (Some ''abc123'') [] None"
  let ?r = "Elem ''ShipmentConfirmResponse'' None [?d] None"
  have f: "find (\<lambda>c. tag c = ''ShipmentDigest'') (children ?r) = Some ?d"
    by simp
  have t: "etext ?d = Some ''abc123''" and c: "children ?d = []"
    by simp_all
  have i: "int_check ''abc123'' = None"
    by (simp add: int_check_def strip_def is_space_def is_digits_def is_digit_def)
  have fl: "float_check ''abc123'' = None"
    by (simp add: float_check_def strip_def is_space_def is_mantissa_def is_digit_def
        lower_def Let_def)
  have b: "bool_check ''abc123'' = None"
    by (simp add: bool_check_def)
  have n: "list_all (\<lambda>check. check ''abc123'' = None) objectify_checks"
    by (simp add: objectify_checks_def i fl b)
  from digest_passed_unchanged [OF f t c n] show ?thesis
    by (auto split: sum.splits)
qed

text \<open>
  C3 fails in the code for a digest that reads as a number. From the confirm response
  whose \<^verbatim>\<open>ShipmentDigest\<close> holds \<^verbatim>\<open>123\<close>, \<^verbatim>\<open>extract_digest\<close>, which reads \<^verbatim>\<open>.pyval\<close>,
  returns the integer and not the string; \<^verbatim>\<open>shipment_accept_request_type\<close> of that
  value builds no request, the element maker raises \<^verbatim>\<open>TypeError\<close>. Of the string itself
  it builds the request whose \<^verbatim>\<open>ShipmentDigest\<close> holds \<^verbatim>\<open>123\<close>.
\<close>

theorem digest_numeric_type_error:
  "extract_digest objectify_checks
     (Elem ''ShipmentConfirmResponse'' None
        [Elem ''ShipmentDigest'' (Some ''123'') [] None] None) = Inr (PyInt 123)
   \<and> shipment_accept_request_type (PyInt 123) = Inl (TypeError (PyInt 123))
   \<and> map_sum id (\<lambda>request. children request ! 1)
       (shipment_accept_request_type (PyStr ''123'')) =
       Inr (Elem ''ShipmentDigest'' (Some ''123'') [] None)"
proof -
  have "extract_digest objectify_checks
          (Elem ''ShipmentConfirmResponse'' None
             [Elem ''ShipmentDigest'' (Some ''123'') [] None] None) = Inr (PyInt 123)
        \<and> shipment_accept_request_type (PyInt 123) = Inl (TypeError (PyInt 123))"
    by (simp add: extract_digest_def pyval_of_def objectify_checks_def List.map_filter_simps
        int_check_def strip_def is_space_def is_digits_def is_digit_def digits_value_def
        shipment_accept_request_type_def E_value_def)
  moreover have "map_sum id (\<lambda>request. children request ! 1)
                   (shipment_accept_request_type (PyStr ''123'')) =
                 Inr (Elem ''ShipmentDigest'' (Some ''123'') [] None)"
    by (simp add: accept_request_of_string)
  ultimately show ?thesis
    by blast
qed

section \<open>The shared class-level elements\<close>


text \<open>
  C8, at two successive calls of \<^verbatim>\<open>shipment_accept_request_type\<close> on the class
  as defined. Right after the first call its document is complete. The second call
  appends the same three class-level elements to its own \<^verbatim>\<open>Request\<close>, which takes
  them out of the first document: the parent of \<^verbatim>\<open>RequestAction\<close> changes at each
  call, and afterwards the \<^verbatim>\<open>Request\<close> of the first document has no children.
\<close>

theorem shared_templates_move:
  "(case ShipmentAccept_class of (cls, s0) \<Rightarrow>
      case shipment_accept_request_type_st cls ''d1'' s0 of (first, s1) \<Rightarrow>
      case shipment_accept_request_type_st cls ''d2'' s1 of (second, s2) \<Rightarrow>
        (map (nparent \<circ> (\<lambda>s. s ! RequestAction cls)) [s0, s1, s2],
         children (view s1 first) ! 0,
         children (view s2 first) ! 0,
         children (view s2 second) ! 0)) =
     ([None, Some 4, Some 7],
      Elem ''Request'' None
        [Elem ''RequestAction'' (Some ''ShipAccept'') [] None,
         Elem ''RequestOption'' (Some ''nonvalidate'') [] None,
         Elem ''TransactionReference'' None
           [Elem ''CustomerContext'' (Some ''unspecified'') [] None] None]
        None,
      Elem ''Request'' None [] None,
      Elem ''Request'' None
        [Elem ''RequestAction'' (Some ''ShipAccept'') [] None,
         Elem ''RequestOption'' (Some ''nonvalidate'') [] None,
         Elem ''TransactionReference'' None
           [Elem ''CustomerContext'' (Some ''unspecified'') [] None] None]
        None)"
proof -
  let ?cls = "\<lparr>RequestAction = 0, RequestOption = 1, TransactionReference = 3\<rparr>"
  let ?s0 = "[\<lparr>ntag = ''RequestAction'', ntext = Some ''ShipAccept'', ntail = None, nkids = [], nparent = None\<rparr>,
        \<lparr>ntag = ''RequestOption'', ntext = Some ''nonvalidate'', ntail = None, nkids = [], nparent = None\<rparr>,
        \<lparr>ntag = ''CustomerContext'', ntext = Some ''unspecified'', ntail = None, nkids = [], nparent = Some 3\<rparr>,
        \<lparr>ntag = ''TransactionReference'', ntext = None, ntail = None, nkids = [2], nparent = None\<rparr>]"
  let ?s1 = "[\<lparr>ntag = ''RequestAction'', ntext = Some ''ShipAccept'', ntail = None, nkids = [], nparent = Some 4\<rparr>,
        \<lparr>ntag = ''RequestOption'', ntext = Some ''nonvalidate'', ntail = None, nkids = [], nparent = Some 4\<rparr>,
        \<lparr>ntag = ''CustomerContext'', ntext = Some ''unspecified'', ntail = None, nkids = [], nparent = Some 3\<rparr>,
        \<lparr>ntag = ''TransactionReference'', ntext = None, ntail = None, nkids = [2], nparent = Some 4\<rparr>,
        \<lparr>ntag = ''Request'', ntext = None, ntail = None, nkids = [0, 1, 3], nparent = Some 6\<rparr>,
        \<lparr>ntag = ''ShipmentDigest'', ntext = Some ''d1'', ntail = None, nkids = [], nparent = Some 6\<rparr>,
        \<lparr>ntag = ''ShipmentAcceptRequest'', ntext = None, ntail = None, nkids = [4, 5], nparent = None\<rparr>]"
  let ?s2 = "[\<lparr>ntag = ''RequestAction'', ntext = Some ''ShipAccept'', ntail = None, nkids = [], nparent = Some 7\<rparr>,
        \<lparr>ntag = ''RequestOption'', ntext = Some ''nonvalidate'', ntail = None, nkids = [], nparent = Some 7\<rparr>,
        \<lparr>ntag = ''CustomerContext'', ntext = Some ''unspecified'', ntail = None, nkids = [], nparent = Some 3\<rparr>,
        \<lparr>ntag = ''TransactionReference'', ntext = None, ntail = None, nkids = [2], nparent = Some 7\<rparr>,
        \<lparr>ntag = ''Request'', ntext = None, ntail = None, nkids = [], nparent = Some 6\<rparr>,
        \<lparr>ntag = ''ShipmentDigest'', ntext = Some ''d1'', ntail = None, nkids = [], nparent = Some 6\<rparr>,
        \<lparr>ntag = ''ShipmentAcceptRequest'', ntext = None, ntail = None, nkids = [4, 5], nparent = None\<rparr>,
        \<lparr>ntag = ''Request'', ntext = None, ntail = None, nkids = [0, 1, 3], nparent = Some 9\<rparr>,
        \<lparr>ntag = ''ShipmentDigest'', ntext = Some ''d2'', ntail = None, nkids = [], nparent = Some 9\<rparr>,
        \<lparr>ntag = ''ShipmentAcceptRequest'', ntext = None, ntail = None, nkids = [7, 8], nparent = None\<rparr>]"
  have c: "ShipmentAccept_class = (?cls, ?s0)"
    by code_simp
  have f: "shipment_accept_request_type_st ?cls ''d1'' ?s0 = (6, ?s1)"
    by code_simp
  have g: "shipment_accept_request_type_st ?cls ''d2'' ?s1 = (9, ?s2)"
    by code_simp
  have v1: "children (view ?s1 6) ! 0 = Elem ''Request'' None
        [Elem ''RequestAction'' (Some ''ShipAccept'') [] None,
         Elem ''RequestOption'' (Some ''nonvalidate'') [] None,
         Elem ''TransactionReference'' None
           [Elem ''CustomerContext'' (Some ''unspecified'') [] None] None]
        None"
    by code_simp
  have v2: "children (view ?s2 6) ! 0 = Elem ''Request'' None [] None"
    by code_simp
  have v3: "children (view ?s2 9) ! 0 = Elem ''Request'' None
        [Elem ''RequestAction'' (Some ''ShipAccept'') [] None,
         Elem ''RequestOption'' (Some ''nonvalidate'') [] None,
         Elem ''TransactionReference'' None
           [Elem ''CustomerContext'' (Some ''unspecified'') [] None] None]
        None"
    by code_simp
  show ?thesis
    unfolding c prod.case f g v1 v2 v3 by simp
qed

section \<open>Required fields\<close>

lemma make_elements_missing:
  assumes "r \<in> set required" and "\<not> supplied args kwargs r"
  shows "\<exists>m. make_elements required args kwargs = Inl (MissingRequiredField m)
             \<and> m \<in> set required \<and> \<not> supplied args kwargs m"
proof (cases "find (\<lambda>r. \<not> supplied args kwargs r) required")
  case None
  with assms show ?thesis
    by (auto simp: find_None_iff)
next
  case (Some m)
  then have "m \<in> set required" and "\<not> supplied args kwargs m"
    by (auto simp: find_Some_iff)
  with Some show ?thesis
    by (simp add: make_elements_def)
qed

lemma supplied_delete:
  "r \<noteq> k \<Longrightarrow> supplied args (AList.delete k kwargs) r = supplied args kwargs r"
  by (auto simp: supplied_def AList.delete_eq)

lemma guess_label_specification_cases:
  "\<exists>l kwargs'. guess_label_specification kwargs = Inr (l, kwargs')
      \<and> (kwargs' = kwargs \<or> kwargs' = AList.delete ''LabelSpecification'' kwargs)"
proof (cases "map_of kwargs ''LabelSpecification''")
  case None
  then have "''LabelSpecification'' \<notin> set (map fst kwargs)"
    by (simp add: map_of_eq_None_iff)
  then show ?thesis
    by (simp add: guess_label_specification_default)
next
  case (Some v)
  then show ?thesis
    by (simp add: guess_label_specification_def)
qed

lemma confirm_missing:
  assumes "r \<in> set [''Shipper'', ''ShipTo'', ''ShipFrom'', ''Service'', ''PaymentInformation'']"
    and "\<not> supplied args kwargs r"
  shows "\<exists>m. shipment_confirm_request_type args kwargs = Inl (MissingRequiredField m)
             \<and> m \<in> set [''Shipper'', ''ShipTo'', ''ShipFrom'', ''Service'',
                        ''PaymentInformation'']
             \<and> \<not> supplied args kwargs m"
proof -
  let ?req = "[''Shipper'', ''ShipTo'', ''ShipFrom'', ''Service'', ''PaymentInformation'']"
  obtain l kwargs' where g: "guess_label_specification kwargs = Inr (l, kwargs')"
    and k: "kwargs' = kwargs \<or> kwargs' = AList.delete ''LabelSpecification'' kwargs"
    using guess_label_specification_cases by blast
  have same: "supplied args kwargs' q = supplied args kwargs q" if "q \<in> set ?req" for q
  proof -
    from that have "q \<noteq> ''LabelSpecification''"
      by auto
    with k show ?thesis
      by (auto simp: supplied_delete)
  qed
  from assms(2) same [OF assms(1)] have "\<not> supplied args kwargs' r"
    by simp
  with assms(1) obtain m where
    m: "make_elements ?req args kwargs' = Inl (MissingRequiredField m)"
    and mr: "m \<in> set ?req" and ms: "\<not> supplied args kwargs' m"
    using make_elements_missing by blast
  from ms same [OF mr] have "\<not> supplied args kwargs m"
    by simp
  with m mr show ?thesis
    by (simp add: shipment_confirm_request_type_def g)
qed

text \<open>
  Where the check of the required names works. Take one of the builders listed in
  \<open>required_field_builders\<close> and a call in which one of its required fields is
  supplied neither as a keyword nor as a positional element of that tag. Then the call
  raises \<^verbatim>\<open>MissingRequiredField\<close>, and the error names a required field that is
  missing: the omitted one when it is the only one missing.
\<close>

lemma missing_required_field:
  assumes "(name, required, builder) \<in> set required_field_builders"
    and "r \<in> set required" and "\<not> supplied args kwargs r"
  shows "\<exists>m. builder args kwargs = Inl (MissingRequiredField m)
             \<and> m \<in> set required \<and> \<not> supplied args kwargs m
             \<and> (list_all (supplied args kwargs) (removeAll r required) \<longrightarrow> m = r)"
proof -
  define Q where "Q (b :: elem list \<Rightarrow> kwargs \<Rightarrow> error + elem) req \<longleftrightarrow>
      (\<exists>m. b args kwargs = Inl (MissingRequiredField m)
           \<and> m \<in> set req \<and> \<not> supplied args kwargs m)" for b req
  define M where "M req \<longleftrightarrow> r \<in> set req" for req
  have mk: "\<exists>m. make_elements req args kwargs = Inl (MissingRequiredField m)
             \<and> m \<in> set req \<and> \<not> supplied args kwargs m" if "M req" for req
    using that make_elements_missing [OF _ assms(3)] by (simp add: M_def)
  have l1: "Q (\<lambda>args kwargs. map_sum id fst (address_type args kwargs)) [''AddressLine1'', ''City'']"
    if "M [''AddressLine1'', ''City'']"
    using mk [OF that] unfolding Q_def by (auto simp: address_type_def)
  have l2: "Q ship_phone_type [''Number'']"
    if "M [''Number'']"
    using mk [OF that] unfolding Q_def by (auto simp: ship_phone_type_def)
  have l3: "Q package_type [''PackagingType'', ''PackageWeight'']"
    if "M [''PackagingType'', ''PackageWeight'']"
    using mk [OF that] unfolding Q_def by (auto simp: package_type_def)
  have l4: "Q service_type [''Code'']"
    if "M [''Code'']"
    using mk [OF that] unfolding Q_def by (auto simp: service_type_def)
  have l5: "Q packaging_type [''Code'']"
    if "M [''Code'']"
    using mk [OF that] unfolding Q_def by (auto simp: packaging_type_def)
  have l6: "Q package_service_options_type [''InsuredValue'']"
    if "M [''InsuredValue'']"
    using mk [OF that] unfolding Q_def by (auto simp: package_service_options_type_def)
  have l7: "Q insured_value_type [''MonetaryValue'']"
    if "M [''MonetaryValue'']"
    using mk [OF that] unfolding Q_def by (auto simp: insured_value_type_def)
  have l8: "Q payment_information_prepaid_type [''AccountNumber'']"
    if "M [''AccountNumber'']"
    using mk [OF that] unfolding Q_def by (auto simp: payment_information_prepaid_type_def)
  have l9: "Q label_specification_type [''LabelPrintMethod'']"
    if "M [''LabelPrintMethod'']"
    using mk [OF that] unfolding Q_def by (auto simp: label_specification_type_def)
  have l10: "Q shipment_confirm_request_type
               [''Shipper'', ''ShipTo'', ''ShipFrom'', ''Service'', ''PaymentInformation'']"
    if "M [''Shipper'', ''ShipTo'', ''ShipFrom'', ''Service'', ''PaymentInformation'']"
    using that confirm_missing [OF _ assms(3)] unfolding Q_def M_def by blast
  have "\<forall>(n, req, b) \<in> set required_field_builders. M req \<longrightarrow> Q b req"
    unfolding required_field_builders_def
    by (simp add: l1 l2 l3 l4 l5 l6 l7 l8 l9 l10)
  with assms(1) have "M required \<longrightarrow> Q builder required"
    by blast
  with assms(2) have found: "\<exists>m. builder args kwargs = Inl (MissingRequiredField m)
             \<and> m \<in> set required \<and> \<not> supplied args kwargs m"
    by (simp add: M_def Q_def)
  from found obtain m where m: "builder args kwargs = Inl (MissingRequiredField m)"
    and mr: "m \<in> set required" and ms: "\<not> supplied args kwargs m"
    by blast
  have "m = r" if "list_all (supplied args kwargs) (removeAll r required)"
  proof (rule ccontr)
    assume "m \<noteq> r"
    with mr have "m \<in> set (removeAll r required)"
      by simp
    with that have "supplied args kwargs m"
      by (simp add: list_all_iff)
    with ms show False ..
  qed
  with m mr ms show ?thesis
    by blast
qed

lemma missing_required_field_address:
  "address_type [] [(''AddressLine1'', Str ''1 Main St'')] = Inl (MissingRequiredField ''City'')"
proof -
  let ?kw = "[(''AddressLine1'', Str ''1 Main St'')]"
  have e: "(''address_type'', [''AddressLine1'', ''City''],
             (\<lambda>args kwargs. map_sum id fst (address_type args kwargs)))
           \<in> set required_field_builders"
    by (simp add: required_field_builders_def)
  have r: "''City'' \<in> set [''AddressLine1'', ''City'']"
    by simp
  have n: "\<not> supplied [] ?kw ''City''"
    by (simp add: supplied_def)
  have o: "list_all (supplied [] ?kw) (removeAll ''City'' [''AddressLine1'', ''City''])"
    by (simp add: supplied_def)
  from missing_required_field [OF e r n] o
  have "map_sum id fst (address_type [] ?kw) = Inl (MissingRequiredField ''City'')"
    by auto
  then show ?thesis
    by (cases "address_type [] ?kw") simp_all
qed

text \<open>
  \<^verbatim>\<open>dimensions_type\<close> hands the required name \<^verbatim>\<open>Code\<close> to \<^verbatim>\<open>make_elements\<close> as its
  siblings do, but only after it has read \<^verbatim>\<open>kwargs['Code']\<close>: the check of the helper
  never fails there, whatever the call.
\<close>

lemma dimensions_type_never_missing:
  "dimensions_type args kwargs \<noteq> Inl (MissingRequiredField m)"
proof (cases "map_of kwargs ''Code''")
  case None
  then show ?thesis
    by (simp add: dimensions_type_def getitem_def)
next
  case (Some code)
  have "list_all (supplied [] [(''Code'', code), (''Description'', d)]) [''Code'']" for d
    by (simp add: supplied_def)
  from make_elements_ok [OF this] Some show ?thesis
    by (simp add: dimensions_type_def getitem_def Let_def split: option.splits)
qed

text \<open>
  C1 fails in the code at \<^verbatim>\<open>dimensions_type\<close>, whose required-field list is
  \<^verbatim>\<open>['Code']\<close>. Called with \<^verbatim>\<open>Length\<close>, \<^verbatim>\<open>Width\<close> and \<^verbatim>\<open>Height\<close> and with \<^verbatim>\<open>Code\<close>
  omitted, it raises \<^verbatim>\<open>KeyError\<close> and not \<^verbatim>\<open>MissingRequiredField\<close>. Its sibling
  \<^verbatim>\<open>service_type\<close>, with the same required-field list and \<^verbatim>\<open>Code\<close> omitted, raises
  \<^verbatim>\<open>MissingRequiredField\<close> naming \<^verbatim>\<open>Code\<close>.
\<close>

theorem dimensions_type_key_error:
  "dimensions_type []
     [(''Length'', Str ''10''), (''Width'', Str ''5''), (''Height'', Str ''2'')] =
     Inl (KeyError ''Code'')
   \<and> service_type [] [(''Description'', Str ''Ground'')] =
     Inl (MissingRequiredField ''Code'')"
  by (simp add: dimensions_type_def getitem_def service_type_def make_elements_def
      supplied_def)

section \<open>The children a builder makes of its keywords\<close>


























end
